theory Spec2Isabelle
  imports Complex_Main "HOL-Library.Multiset"
begin

section \<open>Python values used by the serving code\<close>

text \<open>
  The serving layer (\<^verbatim>\<open>api/app.py\<close>) and the explainer helper
  (\<^verbatim>\<open>src/explainability.py\<close>) are embedded as HOL functions. Python floats are
  idealised as \<^typ>\<open>real\<close> (no NaN, no infinities, no binary rounding error); strings
  are \<^typ>\<open>string\<close>; an exception raised inside a \<^verbatim>\<open>try\<close> block is the
  \<open>Inl\<close> branch of a sum. The third-party collaborators (the fitted preprocessor, the
  XGBoost model, the SHAP tree explainer) are not code of the repository: they are
  parameters of the model, functions that either raise or return a value. Wall-clock
  measurements and the metrics counters are left out.
\<close>

datatype py_exc =
    IndexError
  | TypeError
  | AttributeError
  | ZeroDivisionError
  | LibraryError string

text \<open>Sequencing inside a \<^verbatim>\<open>try\<close> block: the first exception ends the block.\<close>

definition and_then :: "py_exc + 'a \<Rightarrow> ('a \<Rightarrow> py_exc + 'b) \<Rightarrow> py_exc + 'b" where
  "and_then r f = (case r of Inl e \<Rightarrow> Inl e | Inr v \<Rightarrow> f v)"

text \<open>\<^verbatim>\<open>xs[i]\<close> for a non-negative index \<open>i\<close>: out of range raises.\<close>

definition getitem :: "'a list \<Rightarrow> nat \<Rightarrow> py_exc + 'a" where
  "getitem xs i = (if i < length xs then Inr (xs ! i) else Inl IndexError)"

text \<open>\<^verbatim>\<open>xs[:k]\<close>: a negative bound counts from the end; slicing never raises.\<close>

definition slice_to :: "int \<Rightarrow> 'a list \<Rightarrow> 'a list" where
  "slice_to k xs =
     (if 0 \<le> k then take (nat k) xs else take (length xs - nat (- k)) xs)"

text \<open>
  \<^verbatim>\<open>round(x, n)\<close> on an exact value: the nearest multiple of \<open>10^-n\<close>, a tie going
  to the even neighbour.
\<close>

definition py_round :: "real \<Rightarrow> nat \<Rightarrow> real" where
  "py_round x n =
     (let y = x * 10 ^ n; f = \<lfloor>y\<rfloor>; d = y - of_int f
      in of_int (if d < 1 / 2 then f
                 else if 1 / 2 < d then f + 1
                 else if even f then f else f + 1) / 10 ^ n)"

text \<open>
  \<^verbatim>\<open>sorted(xs, key=f, reverse=True)\<close>. CPython reverses the list, sorts it stably in
  ascending key order and reverses the result, which keeps elements of equal key in their
  original order.
\<close>

definition sorted_reverse :: "('a \<Rightarrow> real) \<Rightarrow> 'a list \<Rightarrow> 'a list" where
  "sorted_reverse f xs = rev (sort_key f (rev xs))"

text \<open>\<^verbatim>\<open>a / b\<close> on numbers: true division, raising on a zero divisor.\<close>

definition truediv :: "real \<Rightarrow> real \<Rightarrow> py_exc + real" where
  "truediv a b = (if b = 0 then Inl ZeroDivisionError else Inr (a / b))"

subsection \<open>Dictionaries with insertion order\<close>

text \<open>
  A \<^verbatim>\<open>dict\<close> keeps its keys in insertion order; storing under a key that is present
  replaces the value and leaves the key where it is. \<^verbatim>\<open>d.items()\<close> is the list itself.
\<close>

type_synonym ('k, 'v) dict = "('k \<times> 'v) list"

fun setitem :: "('k, 'v) dict \<Rightarrow> 'k \<Rightarrow> 'v \<Rightarrow> ('k, 'v) dict" where
  "setitem [] k v = [(k, v)]"
| "setitem ((k', v') # d) k v =
     (if k' = k then (k, v) # d else (k', v') # setitem d k v)"

text \<open>\<^verbatim>\<open>{k: v for k, v in pairs}\<close> and \<^verbatim>\<open>dict(pairs)\<close>.\<close>

definition dict_of :: "('k \<times> 'v) list \<Rightarrow> ('k, 'v) dict" where
  "dict_of pairs = foldl (\<lambda>d (k, v). setitem d k v) [] pairs"

section \<open>Data model\<close>

text \<open>The request body of \<^verbatim>\<open>/predict\<close> (class \<^verbatim>\<open>LoanApplication\<close>).\<close>

record LoanApplication =
  Gender :: string
  Married :: string
  Dependents :: string
  Education :: string
  Self_Employed :: string
  ApplicantIncome :: real
  CoapplicantIncome :: real
  LoanAmount :: real
  Loan_Amount_Term :: real
  Credit_History :: real
  Property_Area :: string

text \<open>
  What \<^verbatim>\<open>explainer.shap_values\<close> returns for a two-dimensional input: an array of
  rank 2, indexed by row and feature, or of rank 3, indexed by row, feature and output
  class. The source reads rank 2 that way itself: \<^verbatim>\<open>shap_values[0]\<close> is zipped with the
  feature names, and \<^verbatim>\<open>shap_values_sample[0][i]\<close> is the value of feature \<open>i\<close>.
\<close>

datatype ndarray = Array2 "real list list" | Array3 "real list list list"

text \<open>The collaborators, each a capability that returns or raises.\<close>

record Model =
  model_predict :: "real list list \<Rightarrow> py_exc + int list"
  model_predict_proba :: "real list list \<Rightarrow> py_exc + real list list"

record Preprocessor =
  transform :: "LoanApplication \<Rightarrow> py_exc + real list list"
  get_feature_names_out :: "py_exc + string list"

record Explainer =
  shap_values :: "real list list \<Rightarrow> py_exc + ndarray"

text \<open>
  The module-level names of \<^verbatim>\<open>api/app.py\<close> after start-up; \<open>None\<close> is Python's
  \<^verbatim>\<open>None\<close>.
\<close>

record Globals =
  model :: "Model option"
  preprocessor :: "Preprocessor option"
  explainer :: "Explainer option"
  feature_names_list :: "string list option"

record RankedFactor =
  feature :: string
  contribution :: real
  impact :: string

text \<open>
  The keys shared by the single response and a batch row, then each one's own key. The
  key \<^verbatim>\<open>response_time_seconds\<close> is a clock reading and is not modelled.
\<close>

record Decision =
  prediction :: string
  probability :: real
  top_factors :: "RankedFactor list"

record PredictionResponse = Decision +
  shap_contributions :: "(string, real) dict"

record BatchRow = Decision +
  application_id :: nat

record BatchResponse =
  predictions :: "BatchRow list"
  total_processed :: nat
  approved :: nat
  rejected :: nat
  approval_rate_percent :: real

text \<open>
  \<^verbatim>\<open>HTTPException(status_code, detail)\<close>; the detail is a fixed text or
  \<^verbatim>\<open>str(e)\<close> of the exception caught.
\<close>

datatype detail = Text string | Str py_exc

datatype http_error = HTTPException nat detail

section \<open>The attribution mapping and its ranking (\<^verbatim>\<open>api/app.py\<close>)\<close>

text \<open>
  \<^verbatim>\<open>feature_names_list if feature_names_list else list(preprocessor.get_feature_names_out())\<close>:
  \<^verbatim>\<open>None\<close> and the empty list are both falsy.
\<close>

definition feature_names_of :: "Globals \<Rightarrow> Preprocessor \<Rightarrow> py_exc + string list" where
  "feature_names_of g pp =
     (case feature_names_list g of
        None \<Rightarrow> get_feature_names_out pp
      | Some ns \<Rightarrow> if ns \<noteq> [] then Inr ns else get_feature_names_out pp)"

text \<open>
  The two branches of \<^verbatim>\<open>if len(shap_values.shape) == 3\<close>: the dict comprehension over
  \<^verbatim>\<open>zip(feature_names, shap_values[0][0])\<close> for a rank-3 array and over
  \<^verbatim>\<open>zip(feature_names, shap_values[0])\<close> otherwise; \<^verbatim>\<open>zip\<close> stops at the shorter
  sequence, and indexing an empty axis raises.
\<close>

fun shap_contribution :: "string list \<Rightarrow> ndarray \<Rightarrow> py_exc + (string, real) dict" where
  "shap_contribution feature_names (Array3 a) =
     and_then (getitem a 0) (\<lambda>a0.
     and_then (getitem a0 0) (\<lambda>row.
     Inr (dict_of (zip feature_names row))))"
| "shap_contribution feature_names (Array2 a) =
     and_then (getitem a 0) (\<lambda>row.
     Inr (dict_of (zip feature_names row)))"

text \<open>
  What the specification asks of a rank-3 result, for comparison: the per-feature
  contributions of the one output class \<open>c\<close>, read off one row of the array (a list, by
  feature, of the values by class).
\<close>

definition class_slice :: "nat \<Rightarrow> real list list \<Rightarrow> real list" where
  "class_slice c features = map (\<lambda>per_class. per_class ! c) features"

text \<open>
  \<^verbatim>\<open>sorted(shap_contribution.items(), key=lambda x: abs(x[1]), reverse=True)[:5]\<close>, with
  the literal bound of the slice as the parameter \<open>k\<close>; the source always passes
  \<open>top_k\<close>.
\<close>

definition top_k :: int where
  "top_k = 5"

definition by_magnitude :: "(string \<times> real) list \<Rightarrow> (string \<times> real) list" where
  "by_magnitude items = sorted_reverse (\<lambda>x. \<bar>snd x\<bar>) items"

definition sorted_features :: "int \<Rightarrow> (string, real) dict \<Rightarrow> (string \<times> real) list" where
  "sorted_features k d = slice_to k (by_magnitude d)"

text \<open>The list comprehension that builds \<^verbatim>\<open>top_factors\<close>.\<close>

definition top_factors_of :: "(string \<times> real) list \<Rightarrow> RankedFactor list" where
  "top_factors_of items =
     map (\<lambda>(feat, contrib).
            \<lparr>feature = feat,
             contribution = py_round contrib 4,
             impact = (if contrib > 0 then ''Positive'' else ''Negative'')\<rparr>) items"

text \<open>
  The ranking step as a whole, from the attribution mapping to the ranked factors. It
  sits in the \<^verbatim>\<open>try\<close> block like every other statement, so its result is typed as one;
  neither the sort, the slice nor the comprehension has a \<^verbatim>\<open>raise\<close>, and there is no
  check of the bound.
\<close>

definition rank :: "int \<Rightarrow> (string, real) dict \<Rightarrow> py_exc + RankedFactor list" where
  "rank k d = Inr (top_factors_of (sorted_features k d))"

section \<open>The endpoint \<^verbatim>\<open>/predict\<close>\<close>

text \<open>The body of the \<^verbatim>\<open>try\<close> block, statement by statement.\<close>

definition predict_try ::
  "Globals \<Rightarrow> Model \<Rightarrow> Preprocessor \<Rightarrow> LoanApplication \<Rightarrow> py_exc + PredictionResponse" where
  "predict_try g m pp application =
     and_then (transform pp application) (\<lambda>processed.
     and_then (model_predict m processed) (\<lambda>preds.
     and_then (getitem preds 0) (\<lambda>prediction.
     and_then (model_predict_proba m processed) (\<lambda>probas.
     and_then (getitem probas 0) (\<lambda>probas0.
     and_then (getitem probas0 1) (\<lambda>probability.
     and_then (case explainer g of None \<Rightarrow> Inl AttributeError
               | Some ex \<Rightarrow> shap_values ex processed) (\<lambda>shap_vals.
     and_then (feature_names_of g pp) (\<lambda>feature_names.
     and_then (shap_contribution feature_names shap_vals) (\<lambda>contribs.
     and_then (rank top_k contribs) (\<lambda>factors.
     Inr \<lparr>prediction = (if prediction = 1 then ''Approved'' else ''Rejected''),
          probability = py_round probability 4,
          top_factors = factors,
          shap_contributions = contribs\<rparr>))))))))))"

definition predict :: "Globals \<Rightarrow> LoanApplication \<Rightarrow> http_error + PredictionResponse" where
  "predict g application =
     (case (model g, preprocessor g) of
        (Some m, Some pp) \<Rightarrow>
          (case predict_try g m pp application of
             Inl e \<Rightarrow> Inl (HTTPException 500 (Str e))
           | Inr response \<Rightarrow> Inr response)
      | _ \<Rightarrow> Inl (HTTPException 503 (Text ''Model not loaded'')))"

section \<open>The endpoint \<^verbatim>\<open>/batch_predict\<close>\<close>

text \<open>One pass of the loop body for the application at position \<open>idx\<close>.\<close>

definition batch_row ::
  "Globals \<Rightarrow> Model \<Rightarrow> Preprocessor \<Rightarrow> nat \<Rightarrow> LoanApplication \<Rightarrow> py_exc + BatchRow" where
  "batch_row g m pp idx app =
     and_then (transform pp app) (\<lambda>processed.
     and_then (model_predict m processed) (\<lambda>preds.
     and_then (getitem preds 0) (\<lambda>prediction.
     and_then (model_predict_proba m processed) (\<lambda>probas.
     and_then (getitem probas 0) (\<lambda>probas0.
     and_then (getitem probas0 1) (\<lambda>probability.
     and_then (case explainer g of None \<Rightarrow> Inl AttributeError
               | Some ex \<Rightarrow> shap_values ex processed) (\<lambda>shap_vals.
     and_then (feature_names_of g pp) (\<lambda>feature_names.
     and_then (shap_contribution feature_names shap_vals) (\<lambda>contribs.
     and_then (rank top_k contribs) (\<lambda>factors.
     Inr \<lparr>prediction = (if prediction = 1 then ''Approved'' else ''Rejected''),
          probability = py_round probability 4,
          top_factors = factors,
          application_id = idx + 1\<rparr>))))))))))"

text \<open>
  The \<^verbatim>\<open>for idx, app in enumerate(request.applications)\<close> loop, appending to
  \<^verbatim>\<open>results\<close>; an exception leaves the loop with nothing kept.
\<close>

fun batch_loop ::
  "Globals \<Rightarrow> Model \<Rightarrow> Preprocessor \<Rightarrow> nat \<Rightarrow> LoanApplication list \<Rightarrow> BatchRow list
     \<Rightarrow> py_exc + BatchRow list" where
  "batch_loop g m pp idx [] results = Inr results"
| "batch_loop g m pp idx (app # apps) results =
     (case batch_row g m pp idx app of
        Inl e \<Rightarrow> Inl e
      | Inr r \<Rightarrow> batch_loop g m pp (idx + 1) apps (results @ [r]))"

text \<open>
  The summary computed after the loop, still inside the \<^verbatim>\<open>try\<close> block. The rate is
  computed here on exact values; the source computes it in binary floating point, which
  can fall on the other side of a rounding tie (for 23 approvals out of 160 the exact
  rate \<open>14.375\<close> rounds to \<open>14.38\<close>, the floating-point product is just below it and
  rounds to \<open>14.37\<close>). Nothing below depends on the value of the rate beyond its being
  computed, or not, without a division by zero.
\<close>

definition batch_summary :: "BatchRow list \<Rightarrow> py_exc + BatchResponse" where
  "batch_summary results =
     (let n_approved = length (filter (\<lambda>r. prediction r = ''Approved'') results);
          n_rejected = length (filter (\<lambda>r. prediction r = ''Rejected'') results)
      in and_then (truediv (real n_approved) (real (length results))) (\<lambda>q.
         Inr \<lparr>predictions = results,
              total_processed = length results,
              approved = n_approved,
              rejected = n_rejected,
              approval_rate_percent = py_round (q * 100) 2\<rparr>))"

definition batch_predict ::
  "Globals \<Rightarrow> LoanApplication list \<Rightarrow> http_error + BatchResponse" where
  "batch_predict g applications =
     (case (model g, preprocessor g) of
        (Some m, Some pp) \<Rightarrow>
          (case and_then (batch_loop g m pp 0 applications []) batch_summary of
             Inl e \<Rightarrow> Inl (HTTPException 500 (Str e))
           | Inr response \<Rightarrow> Inr response)
      | _ \<Rightarrow> Inl (HTTPException 503 (Text ''Model not loaded'')))"

section \<open>\<^verbatim>\<open>ModelExplainer.get_feature_contributions\<close> (\<^verbatim>\<open>src/explainability.py\<close>)\<close>

record ModelExplainer =
  self_explainer :: Explainer
  self_feature_names :: "string list"

text \<open>A sample is a vector or a matrix; a vector is reshaped to one row.\<close>

datatype sample = Vector "real list" | Matrix "real list list"

fun reshape_row :: "sample \<Rightarrow> real list list" where
  "reshape_row (Vector v) = [v]"
| "reshape_row (Matrix m) = m"

text \<open>
  \<^verbatim>\<open>float(shap_values_sample[0][i])\<close>: on a rank-3 array the indexed value is itself an
  array, which converts only when it holds one element.
\<close>

fun float_at :: "ndarray \<Rightarrow> nat \<Rightarrow> py_exc + real" where
  "float_at (Array2 a) i = and_then (getitem a 0) (\<lambda>row. getitem row i)"
| "float_at (Array3 a) i =
     and_then (getitem a 0) (\<lambda>a0.
     and_then (getitem a0 i) (\<lambda>v.
     (case v of [x] \<Rightarrow> Inr x | _ \<Rightarrow> Inl TypeError)))"

text \<open>The \<^verbatim>\<open>for i, feature in enumerate(self.feature_names)\<close> loop.\<close>

fun contributions_loop ::
  "ndarray \<Rightarrow> nat \<Rightarrow> string list \<Rightarrow> (string, real) dict \<Rightarrow> py_exc + (string, real) dict" where
  "contributions_loop sv i [] contributions = Inr contributions"
| "contributions_loop sv i (feat # feats) contributions =
     (case float_at sv i of
        Inl e \<Rightarrow> Inl e
      | Inr v \<Rightarrow> contributions_loop sv (i + 1) feats (setitem contributions feat v))"

definition get_feature_contributions ::
  "ModelExplainer \<Rightarrow> sample \<Rightarrow> py_exc + (string, real) dict" where
  "get_feature_contributions self X_sample =
     and_then (shap_values (self_explainer self) (reshape_row X_sample)) (\<lambda>sv.
     and_then (contributions_loop sv 0 (self_feature_names self) []) (\<lambda>contributions.
     Inr (dict_of (by_magnitude contributions))))"

section \<open>The approval rate of \<^verbatim>\<open>APIMetrics.get_stats\<close>\<close>

text \<open>
  \<^verbatim>\<open>round(approved_count / total_decisions * 100, 2) if total_decisions > 0 else 0\<close>:
  the running counters' rate, guarded against an empty history; on exact values, like
  the rate of the batch summary.
\<close>

definition stats_approval_rate_percent :: "nat \<Rightarrow> nat \<Rightarrow> py_exc + real" where
  "stats_approval_rate_percent approved_count rejected_count =
     (let total_decisions = approved_count + rejected_count
      in if total_decisions > 0
         then and_then (truediv (real approved_count) (real total_decisions))
                (\<lambda>q. Inr (py_round (q * 100) 2))
         else Inr 0)"

section \<open>A small loaded service, for examples\<close>

text \<open>
  A preprocessor that keeps three numeric columns and rejects a non-positive loan amount,
  a model that approves on a good credit history, and an explainer that attributes a
  fixed share to each column.
\<close>

definition example_preprocessor :: Preprocessor where
  "example_preprocessor =
     \<lparr>transform = (\<lambda>a. if LoanAmount a \<le> 0 then Inl (LibraryError ''bad row'')
                        else Inr [[ApplicantIncome a, LoanAmount a, Credit_History a]]),
      get_feature_names_out = Inr [''ApplicantIncome'', ''LoanAmount'', ''Credit_History'']\<rparr>"

definition example_model :: Model where
  "example_model =
     \<lparr>model_predict = (\<lambda>X. Inr (map (\<lambda>row. if last row = 1 then 1 else 0) X)),
      model_predict_proba =
        (\<lambda>X. Inr (map (\<lambda>row. if last row = 1 then [1 / 8, 7 / 8] else [2 / 3, 1 / 3]) X))\<rparr>"

definition example_explainer :: Explainer where
  "example_explainer =
     \<lparr>shap_values = (\<lambda>X. Inr (Array2 (map (\<lambda>row. [1 / 4, - 1 / 2, last row - 1]) X)))\<rparr>"

definition example_globals :: Globals where
  "example_globals =
     \<lparr>model = Some example_model,
      preprocessor = Some example_preprocessor,
      explainer = Some example_explainer,
      feature_names_list = Some [''ApplicantIncome'', ''LoanAmount'', ''Credit_History'']\<rparr>"

definition example_application :: "real \<Rightarrow> real \<Rightarrow> LoanApplication" where
  "example_application amount history =
     \<lparr>Gender = ''Male'', Married = ''Yes'', Dependents = ''0'', Education = ''Graduate'',
      Self_Employed = ''No'', ApplicantIncome = 5000, CoapplicantIncome = 0,
      LoanAmount = amount, Loan_Amount_Term = 360, Credit_History = history,
      Property_Area = ''Urban''\<rparr>"

definition example_model_explainer :: ModelExplainer where
  "example_model_explainer =
     \<lparr>self_explainer = example_explainer,
      self_feature_names = [''ApplicantIncome'', ''LoanAmount'', ''Credit_History'']\<rparr>"

text \<open>The attribution of the specification's ranking example.\<close>

definition example_attribution :: "(string, real) dict" where
  "example_attribution =
     [(''A'', 1 / 2), (''B'', - 4 / 5), (''C'', 3 / 10), (''D'', 1 / 10), (''E'', 1 / 20),
      (''F'', 9 / 10)]"

section \<open>Properties of the primitives\<close>

lemma and_then_Inl [simp]: "and_then (Inl e) f = Inl e"
  by (simp add: and_then_def)

lemma and_then_Inr [simp]: "and_then (Inr v) f = f v"
  by (simp add: and_then_def)

lemma and_then_eq_Inr: "and_then r f = Inr y \<longleftrightarrow> (\<exists>v. r = Inr v \<and> f v = Inr y)"
  by (cases r) simp_all

lemma getitem_Cons_0 [simp]: "getitem (x # xs) 0 = Inr x"
  by (simp add: getitem_def)

lemma getitem_Nil [simp]: "getitem [] i = Inl IndexError"
  by (simp add: getitem_def)

lemma mset_sorted_reverse: "mset (sorted_reverse f xs) = mset xs"
  by (simp add: sorted_reverse_def)

lemma sorted_reverse_descending:
  "sorted_wrt (\<lambda>a b. f b \<le> f a) (sorted_reverse f xs)"
proof -
  have "sorted (map f (sort_key f (rev xs)))"
    by (rule sorted_sort_key)
  then have "sorted_wrt (\<lambda>a b. f a \<le> f b) (sort_key f (rev xs))"
    by (simp add: sorted_map)
  then show ?thesis
    by (simp add: sorted_reverse_def sorted_wrt_rev)
qed

lemma sorted_reverse_stable:
  "filter (\<lambda>y. f y = c) (sorted_reverse f xs) = filter (\<lambda>y. f y = c) xs"
proof -
  have "filter (\<lambda>y. f y = c) (sorted_reverse f xs)
          = rev (filter (\<lambda>y. f y = c) (sort_key f (rev xs)))"
    by (simp add: sorted_reverse_def rev_filter)
  also have "\<dots> = rev (filter (\<lambda>y. f y = c) (rev xs))"
    by (simp only: sort_key_stable)
  also have "\<dots> = filter (\<lambda>y. f y = c) xs"
    by (simp add: rev_filter)
  finally show ?thesis .
qed

lemma mset_by_magnitude: "mset (by_magnitude items) = mset items"
  by (simp add: by_magnitude_def mset_sorted_reverse)

lemma length_by_magnitude: "length (by_magnitude items) = length items"
  using mset_by_magnitude [of items] by (metis size_mset)

lemma by_magnitude_descending:
  "sorted_wrt (\<lambda>a b. \<bar>snd b\<bar> \<le> \<bar>snd a\<bar>) (by_magnitude items)"
  unfolding by_magnitude_def by (rule sorted_reverse_descending)

lemma by_magnitude_stable:
  "filter (\<lambda>x. \<bar>snd x\<bar> = c) (by_magnitude items) = filter (\<lambda>x. \<bar>snd x\<bar> = c) items"
  unfolding by_magnitude_def by (rule sorted_reverse_stable)

lemma setitem_fresh: "k \<notin> fst ` set d \<Longrightarrow> setitem d k v = d @ [(k, v)]"
  by (induction d) auto

lemma set_setitem: "set (setitem d k v) \<subseteq> insert (k, v) (set d)"
  by (induction d) (auto split: if_splits)

lemma foldl_setitem_distinct:
  "distinct (map fst (d @ ps)) \<Longrightarrow>
     foldl (\<lambda>d (k, v). setitem d k v) d ps = d @ ps"
proof (induction ps arbitrary: d)
  case Nil
  then show ?case by simp
next
  case (Cons p ps)
  obtain k v where p: "p = (k, v)" by (cases p)
  from Cons.prems p have fresh: "k \<notin> fst ` set d" by auto
  from Cons.prems p have "distinct (map fst ((d @ [(k, v)]) @ ps))" by simp
  then have "foldl (\<lambda>d (k, v). setitem d k v) (d @ [(k, v)]) ps = (d @ [(k, v)]) @ ps"
    by (rule Cons.IH)
  with fresh p show ?case by (simp add: setitem_fresh)
qed

lemma dict_of_distinct: "distinct (map fst ps) \<Longrightarrow> dict_of ps = ps"
  using foldl_setitem_distinct [of "[]" ps] by (simp add: dict_of_def)

lemma set_foldl_setitem:
  "set (foldl (\<lambda>d (k, v). setitem d k v) d ps) \<subseteq> set d \<union> set ps"
proof (induction ps arbitrary: d)
  case Nil
  then show ?case by simp
next
  case (Cons p ps)
  obtain k v where p: "p = (k, v)" by (cases p)
  have "set (foldl (\<lambda>d (k, v). setitem d k v) (setitem d k v) ps)
          \<subseteq> set (setitem d k v) \<union> set ps"
    by (rule Cons.IH)
  with set_setitem [of d k v] p show ?case by auto
qed

lemma set_dict_of: "set (dict_of ps) \<subseteq> set ps"
  using set_foldl_setitem [of "[]" ps] by (simp add: dict_of_def)

lemma distinct_keys_by_magnitude:
  "distinct (map fst items) \<Longrightarrow> distinct (map fst (by_magnitude items))"
proof -
  assume d: "distinct (map fst items)"
  have "mset (map fst (by_magnitude items)) = mset (map fst items)"
    by (simp add: mset_by_magnitude)
  with d show ?thesis by (metis distinct_count_atmost_1 set_mset_mset)
qed

lemma top_factors_of_nth:
  "i < length items \<Longrightarrow>
     top_factors_of items ! i =
       \<lparr>feature = fst (items ! i), contribution = py_round (snd (items ! i)) 4,
        impact = (if snd (items ! i) > 0 then ''Positive'' else ''Negative'')\<rparr>"
  by (simp add: top_factors_of_def split_beta)

lemma length_top_factors_of [simp]: "length (top_factors_of items) = length items"
  by (simp add: top_factors_of_def)

lemma map_feature_top_factors_of: "map feature (top_factors_of items) = map fst items"
  by (simp add: top_factors_of_def split_beta)

lemma map_contribution_top_factors_of:
  "map contribution (top_factors_of items) = map (\<lambda>x. py_round (snd x) 4) items"
  by (simp add: top_factors_of_def split_beta)

lemma set_sorted_features: "set (sorted_features k d) \<subseteq> set d"
proof -
  have "set (by_magnitude d) = set d"
    using mset_by_magnitude [of d] by (metis set_mset_mset)
  then show ?thesis
    by (auto simp: sorted_features_def slice_to_def dest: in_set_takeD)
qed

text \<open>Rounding never turns a value of one sign into a value of the other.\<close>

lemma py_round_pos: assumes "0 < py_round x n" shows "0 < x"
proof -
  define y where "y = x * 10 ^ n"
  define m where "m = (if y - of_int \<lfloor>y\<rfloor> < 1 / 2 then \<lfloor>y\<rfloor>
                 else if 1 / 2 < y - of_int \<lfloor>y\<rfloor> then \<lfloor>y\<rfloor> + 1
                 else if even \<lfloor>y\<rfloor> then \<lfloor>y\<rfloor> else \<lfloor>y\<rfloor> + 1)"
  have r: "py_round x n = of_int m / 10 ^ n"
    by (simp add: py_round_def Let_def y_def m_def)
  with assms have "0 < (of_int m :: real)"
    by (simp add: zero_less_divide_iff)
  then have m: "0 < m" by simp
  have "0 < y"
  proof (cases "y - of_int \<lfloor>y\<rfloor> < 1 / 2")
    case True
    with m have "1 \<le> \<lfloor>y\<rfloor>" by (simp add: m_def)
    then show ?thesis by linarith
  next
    case False
    with m have "0 \<le> \<lfloor>y\<rfloor>" by (auto simp: m_def split: if_splits)
    with False show ?thesis by linarith
  qed
  then show ?thesis
    by (simp add: y_def zero_less_mult_iff)
qed

lemma py_round_neg: assumes "py_round x n < 0" shows "x < 0"
proof -
  define y where "y = x * 10 ^ n"
  define m where "m = (if y - of_int \<lfloor>y\<rfloor> < 1 / 2 then \<lfloor>y\<rfloor>
                 else if 1 / 2 < y - of_int \<lfloor>y\<rfloor> then \<lfloor>y\<rfloor> + 1
                 else if even \<lfloor>y\<rfloor> then \<lfloor>y\<rfloor> else \<lfloor>y\<rfloor> + 1)"
  have r: "py_round x n = of_int m / 10 ^ n"
    by (simp add: py_round_def Let_def y_def m_def)
  with assms have "(of_int m :: real) < 0"
    by (simp add: divide_less_0_iff)
  then have m: "m < 0" by simp
  have "\<lfloor>y\<rfloor> \<le> m" by (simp add: m_def)
  with m have "\<lfloor>y\<rfloor> + 1 \<le> 0" by simp
  then have "(of_int \<lfloor>y\<rfloor> :: real) + 1 \<le> 0"
    by (metis of_int_1 of_int_add of_int_le_0_iff)
  moreover have "y < of_int \<lfloor>y\<rfloor> + 1"
    by (rule real_of_int_floor_add_one_gt)
  ultimately have "y < 0" by linarith
  then show ?thesis
    by (simp add: y_def mult_less_0_iff)
qed

section \<open>Ranking\<close>

text \<open>
  The specification's ranking example: for the attribution \<open>A: 0.5, B: -0.8, C: 0.3,
  D: 0.1, E: 0.05, F: 0.9\<close> the ranked output is \<open>F, B, A, C, D\<close>, and \<open>E\<close> is left out
  as sixth by magnitude.
\<close>

lemma rank_example:
  "rank top_k example_attribution =
     Inr [\<lparr>feature = ''F'', contribution = 9 / 10, impact = ''Positive''\<rparr>,
          \<lparr>feature = ''B'', contribution = - (4 / 5), impact = ''Negative''\<rparr>,
          \<lparr>feature = ''A'', contribution = 1 / 2, impact = ''Positive''\<rparr>,
          \<lparr>feature = ''C'', contribution = 3 / 10, impact = ''Positive''\<rparr>,
          \<lparr>feature = ''D'', contribution = 1 / 10, impact = ''Positive''\<rparr>]"
  by (simp add: rank_def top_k_def sorted_features_def slice_to_def by_magnitude_def
      sorted_reverse_def top_factors_of_def example_attribution_def py_round_def Let_def)

text \<open>
  Ranking compares the unrounded values: two contributions that both round to \<open>0\<close> are
  still ordered by their magnitude, against the order of the mapping.
\<close>

lemma rank_compares_unrounded:
  "rank top_k [(''A'', 3 / 100000), (''B'', 4 / 100000)] =
     Inr [\<lparr>feature = ''B'', contribution = 0, impact = ''Positive''\<rparr>,
          \<lparr>feature = ''A'', contribution = 0, impact = ''Positive''\<rparr>]"
  by (simp add: rank_def top_k_def sorted_features_def slice_to_def by_magnitude_def
      sorted_reverse_def top_factors_of_def py_round_def Let_def)

text \<open>Contributions of equal magnitude stay in the order of the mapping.\<close>

lemma rank_ties_keep_mapping_order:
  "rank top_k [(''A'', 1 / 5), (''B'', - 1 / 2), (''C'', - 1 / 5), (''D'', 1 / 2)] =
     Inr [\<lparr>feature = ''B'', contribution = - (1 / 2), impact = ''Negative''\<rparr>,
          \<lparr>feature = ''D'', contribution = 1 / 2, impact = ''Positive''\<rparr>,
          \<lparr>feature = ''A'', contribution = 1 / 5, impact = ''Positive''\<rparr>,
          \<lparr>feature = ''C'', contribution = - (1 / 5), impact = ''Negative''\<rparr>]"
  by (simp add: rank_def top_k_def sorted_features_def slice_to_def by_magnitude_def
      sorted_reverse_def top_factors_of_def py_round_def Let_def)

text \<open>
  Claim C1. For every attribution mapping and every \<open>k > 0\<close> the ranking succeeds with
  the first \<open>k\<close> items of the mapping's items ordered by magnitude, where that order
  \<^item> is descending in the unrounded absolute contribution,
  \<^item> is a rearrangement of the items of the mapping, and
  \<^item> keeps items of equal magnitude in the iteration order of the mapping (for every
    magnitude \<open>c\<close>, the items of magnitude \<open>c\<close> appear as they do in the mapping);
  each ranked factor carries its item's feature name and the item's contribution rounded
  to four decimal places, so rounding is applied to the items already ranked and cut.
  The source passes the bound \<open>5\<close> (\<^const>\<open>top_k\<close>).
\<close>

theorem rank_top_k_by_magnitude:
  assumes "0 < k"
  shows "rank k d = Inr (top_factors_of (take (nat k) (by_magnitude d)))
       \<and> map feature (top_factors_of (take (nat k) (by_magnitude d)))
           = map fst (take (nat k) (by_magnitude d))
       \<and> map contribution (top_factors_of (take (nat k) (by_magnitude d)))
           = map (\<lambda>x. py_round (snd x) 4) (take (nat k) (by_magnitude d))
       \<and> sorted_wrt (\<lambda>a b. \<bar>snd b\<bar> \<le> \<bar>snd a\<bar>) (by_magnitude d)
       \<and> mset (by_magnitude d) = mset d
       \<and> (\<forall>c. filter (\<lambda>x. \<bar>snd x\<bar> = c) (by_magnitude d) = filter (\<lambda>x. \<bar>snd x\<bar> = c) d)"
proof -
  from assms have "rank k d = Inr (top_factors_of (take (nat k) (by_magnitude d)))"
    by (simp add: rank_def sorted_features_def slice_to_def)
  then show ?thesis
    by (simp add: map_feature_top_factors_of map_contribution_top_factors_of
        by_magnitude_descending mset_by_magnitude by_magnitude_stable)
qed

theorem rank_top_k_by_magnitude_witness:
  "(0::int) < 5
   \<and> rank 5 example_attribution
       = Inr (top_factors_of (take (nat 5) (by_magnitude example_attribution)))
   \<and> map feature (top_factors_of (take (nat 5) (by_magnitude example_attribution)))
       = [''F'', ''B'', ''A'', ''C'', ''D'']
   \<and> map contribution (top_factors_of (take (nat 5) (by_magnitude example_attribution)))
       = [9 / 10, - (4 / 5), 1 / 2, 3 / 10, 1 / 10]
   \<and> mset (by_magnitude example_attribution) = mset example_attribution"
proof -
  have k: "(0::int) < 5" by simp
  have order: "by_magnitude example_attribution =
      [(''F'', 9 / 10), (''B'', - (4 / 5)), (''A'', 1 / 2), (''C'', 3 / 10), (''D'', 1 / 10),
       (''E'', 1 / 20)]"
    by (simp add: by_magnitude_def sorted_reverse_def example_attribution_def)
  have rounded: "map (\<lambda>x. py_round (snd x) 4) (take (nat 5) (by_magnitude example_attribution))
      = [9 / 10, - (4 / 5), 1 / 2, 3 / 10, 1 / 10]"
    by (simp add: order py_round_def Let_def)
  from rank_top_k_by_magnitude [OF k, of example_attribution] rounded
  show ?thesis by (simp add: order)
qed

text \<open>
  Claim C4 says that the label of a ranked factor is \<open>Positive\<close> exactly when its
  contribution is strictly greater than \<open>0\<close>, and that a contribution of exactly \<open>0\<close>
  is labelled \<open>Negative\<close>. The contribution a ranked factor carries is the rounded one,
  while the label is decided on the value before rounding: an attribution of \<open>0.00002\<close>
  gives a factor with contribution \<open>0\<close> and the label \<open>Positive\<close>.
\<close>

theorem impact_label_rounded_counterexample:
  "rank top_k [(''A'', 1 / 50000)] =
     Inr [\<lparr>feature = ''A'', contribution = 0, impact = ''Positive''\<rparr>]"
  by (simp add: rank_def top_k_def sorted_features_def slice_to_def by_magnitude_def
      sorted_reverse_def top_factors_of_def py_round_def Let_def)

text \<open>
  Claim C4, as the code has it. Every ranked factor comes from an entry of the attribution
  mapping: it carries the entry's feature name and the entry's contribution rounded to
  four decimal places, and its label is \<open>Positive\<close> exactly when the entry's unrounded
  contribution is strictly greater than \<open>0\<close> and \<open>Negative\<close> exactly when it is \<open>0\<close>
  or less, an attribution of exactly \<open>0\<close> included. A factor whose rounded contribution
  is above \<open>0\<close> is therefore \<open>Positive\<close> and one whose rounded contribution is below
  \<open>0\<close> is \<open>Negative\<close>; only a rounded contribution of \<open>0\<close> can carry either label.
\<close>

theorem impact_label_sign:
  assumes "rank k d = Inr factors" and "i < length factors"
  shows "sorted_features k d ! i \<in> set d
       \<and> feature (factors ! i) = fst (sorted_features k d ! i)
       \<and> contribution (factors ! i) = py_round (snd (sorted_features k d ! i)) 4
       \<and> (impact (factors ! i) = ''Positive'') = (0 < snd (sorted_features k d ! i))
       \<and> (impact (factors ! i) = ''Negative'') = (snd (sorted_features k d ! i) \<le> 0)
       \<and> (0 < contribution (factors ! i) \<longrightarrow> impact (factors ! i) = ''Positive'')
       \<and> (contribution (factors ! i) < 0 \<longrightarrow> impact (factors ! i) = ''Negative'')"
proof -
  from assms(1) have f: "factors = top_factors_of (sorted_features k d)"
    by (simp add: rank_def)
  with assms(2) have i: "i < length (sorted_features k d)" by simp
  then have "sorted_features k d ! i \<in> set (sorted_features k d)" by simp
  with set_sorted_features have item: "sorted_features k d ! i \<in> set d" by blast
  have fields: "feature (factors ! i) = fst (sorted_features k d ! i)"
    "contribution (factors ! i) = py_round (snd (sorted_features k d ! i)) 4"
    "impact (factors ! i)
       = (if 0 < snd (sorted_features k d ! i) then ''Positive'' else ''Negative'')"
    unfolding f top_factors_of_nth [OF i] by simp_all
  from fields(3) have label:
    "(impact (factors ! i) = ''Positive'') = (0 < snd (sorted_features k d ! i))"
    "(impact (factors ! i) = ''Negative'') = (snd (sorted_features k d ! i) \<le> 0)"
    by auto
  have "impact (factors ! i) = ''Positive''" if "0 < contribution (factors ! i)"
    using that py_round_pos [of "snd (sorted_features k d ! i)" 4] fields(2) label(1) by simp
  moreover have "impact (factors ! i) = ''Negative''" if "contribution (factors ! i) < 0"
    using that py_round_neg [of "snd (sorted_features k d ! i)" 4] fields(2) label(2) by simp
  ultimately show ?thesis
    using item fields(1,2) label by blast
qed

theorem impact_label_sign_witness:
  "rank 5 [(''A'', 0), (''B'', 3 / 10)] =
     Inr [\<lparr>feature = ''B'', contribution = 3 / 10, impact = ''Positive''\<rparr>,
          \<lparr>feature = ''A'', contribution = 0, impact = ''Negative''\<rparr>]
   \<and> (1::nat) < length [\<lparr>feature = ''B'', contribution = 3 / 10, impact = ''Positive''\<rparr>,
          \<lparr>feature = ''A'', contribution = 0, impact = ''Negative''\<rparr>]
   \<and> sorted_features 5 [(''A'', 0), (''B'', 3 / 10)] ! 1 = (''A'', 0)
   \<and> (impact ([\<lparr>feature = ''B'', contribution = 3 / 10, impact = ''Positive''\<rparr>,
          \<lparr>feature = ''A'', contribution = 0, impact = ''Negative''\<rparr>] ! 1) = ''Negative'')
       = (snd (sorted_features 5 [(''A'', 0), (''B'', 3 / 10)] ! 1) \<le> 0)"
proof -
  have r: "rank 5 [(''A'', 0), (''B'', 3 / 10)] =
     Inr [\<lparr>feature = ''B'', contribution = 3 / 10, impact = ''Positive''\<rparr>,
          \<lparr>feature = ''A'', contribution = 0, impact = ''Negative''\<rparr>]"
    by (simp add: rank_def sorted_features_def slice_to_def by_magnitude_def
        sorted_reverse_def top_factors_of_def py_round_def Let_def)
  have s: "sorted_features 5 [(''A'', 0), (''B'', 3 / 10)] ! 1 = (''A'', 0)"
    by (simp add: sorted_features_def slice_to_def by_magnitude_def sorted_reverse_def)
  from impact_label_sign [OF r, of 1] r s show ?thesis by simp
qed

text \<open>
  A mapping of at most five features is ranked whole: every feature comes back, in ranked
  order, and nothing is added.
\<close>

lemma rank_short_input:
  assumes "length d \<le> 5"
  shows "rank top_k d = Inr (top_factors_of (by_magnitude d))"
    and "length (top_factors_of (by_magnitude d)) = length d"
  using assms
  by (simp_all add: rank_def top_k_def sorted_features_def slice_to_def length_by_magnitude)

section \<open>The attribution mapping\<close>

lemma distinct_keys_zip: "distinct names \<Longrightarrow> distinct (map fst (zip names row))"
  by (simp add: map_fst_zip_take)

lemma dict_of_zip_distinct: "distinct names \<Longrightarrow> dict_of (zip names row) = zip names row"
  by (rule dict_of_distinct) (rule distinct_keys_zip)

lemma values_of_dict_of_zip: "snd ` set (dict_of (zip names row)) \<subseteq> set row"
proof -
  have "snd ` set (dict_of (zip names row)) \<subseteq> snd ` set (zip names row)"
    using set_dict_of [of "zip names row"] by blast
  also have "\<dots> \<subseteq> set row"
    by (auto dest: set_zip_rightD)
  finally show ?thesis .
qed

text \<open>
  Claim C7, at a rank-3 result. The claim expects the mapping to hold the per-feature
  contributions of one output class. The source indexes \<^verbatim>\<open>shap_values[0][0]\<close>, which in
  a rank-3 array is the first feature of the first row with its values by class, and zips
  that with the feature names: for two features and three classes the mapping gives the
  first feature its class-0 value and the second feature the first feature's class-1
  value, which is the slice of no class.
\<close>

theorem shap_contribution_rank3_mixes_classes:
  "shap_contribution [''f0'', ''f1'']
       (Array3 [[[1 / 10, 2 / 10, 3 / 10], [4 / 10, 5 / 10, 6 / 10]]])
     = Inr [(''f0'', 1 / 10), (''f1'', 2 / 10)]
   \<and> zip [''f0'', ''f1''] (class_slice 0 [[1 / 10, 2 / 10, 3 / 10], [4 / 10, 5 / 10, 6 / 10]])
       = [(''f0'', 1 / 10), (''f1'', 4 / 10)]
   \<and> zip [''f0'', ''f1''] (class_slice 1 [[1 / 10, 2 / 10, 3 / 10], [4 / 10, 5 / 10, 6 / 10]])
       = [(''f0'', 2 / 10), (''f1'', 5 / 10)]
   \<and> zip [''f0'', ''f1''] (class_slice 2 [[1 / 10, 2 / 10, 3 / 10], [4 / 10, 5 / 10, 6 / 10]])
       = [(''f0'', 3 / 10), (''f1'', 6 / 10)]"
  by (simp add: dict_of_def class_slice_def)

lemma contributions_loop_distinct:
  "distinct (map fst d @ feats) \<Longrightarrow> i + length feats \<le> length row \<Longrightarrow>
     contributions_loop (Array2 (row # rows)) i feats d = Inr (d @ zip feats (drop i row))"
proof (induction feats arbitrary: i d)
  case Nil
  then show ?case by simp
next
  case (Cons feat feats)
  from Cons.prems have i: "i < length row" by simp
  from Cons.prems have fresh: "feat \<notin> fst ` set d" by auto
  from Cons.prems have "distinct (map fst (d @ [(feat, row ! i)]) @ feats)" by auto
  moreover from Cons.prems have "(i + 1) + length feats \<le> length row" by simp
  ultimately have "contributions_loop (Array2 (row # rows)) (i + 1) feats (d @ [(feat, row ! i)])
      = Inr ((d @ [(feat, row ! i)]) @ zip feats (drop (i + 1) row))"
    by (rule Cons.IH)
  moreover from i have "drop i row = row ! i # drop (i + 1) row"
    by (simp add: Cons_nth_drop_Suc)
  ultimately show ?case
    using i fresh by (simp add: getitem_def setitem_fresh)
qed

lemma get_feature_contributions_rank2:
  assumes "distinct names" and "length names \<le> length row"
    and "shap_values ex (reshape_row X) = Inr (Array2 (row # rows))"
  shows "get_feature_contributions \<lparr>self_explainer = ex, self_feature_names = names\<rparr> X
           = Inr (by_magnitude (zip names row))"
proof -
  from assms(1,2) have "contributions_loop (Array2 (row # rows)) 0 names [] = Inr (zip names row)"
    using contributions_loop_distinct [of "[]" names 0 row rows] by simp
  moreover from assms(1) have "distinct (map fst (by_magnitude (zip names row)))"
    by (intro distinct_keys_by_magnitude distinct_keys_zip)
  ultimately show ?thesis
    using assms(3) by (simp add: get_feature_contributions_def dict_of_distinct)
qed

text \<open>
  Claim C3 says that the raw attribution keeps the feature-vector order. That holds for
  the mapping of the serving path, but \<^const>\<open>get_feature_contributions\<close> re-sorts its
  mapping by absolute value before returning it (the source says so in a comment): for the
  features \<open>ApplicantIncome, LoanAmount, Credit_History\<close> with the values
  \<open>0.25, -0.5, 0\<close> the first key of the result is \<open>LoanAmount\<close>.
\<close>

theorem get_feature_contributions_order_counterexample:
  "get_feature_contributions example_model_explainer (Vector [5000, 100, 1])
     = Inr [(''LoanAmount'', - (1 / 2)), (''ApplicantIncome'', 1 / 4), (''Credit_History'', 0)]
   \<and> map fst [(''LoanAmount'', - (1 / 2)), (''ApplicantIncome'', 1 / 4), (''Credit_History'', 0 :: real)]
       \<noteq> self_feature_names example_model_explainer"
  by (simp add: get_feature_contributions_def example_model_explainer_def example_explainer_def
      getitem_def by_magnitude_def sorted_reverse_def dict_of_def)

text \<open>
  Claim C3, as the code has it. When the explainer returns one value for each of the
  distinct feature names, the mapping of the serving path has exactly one entry per
  feature name, in feature-vector order, each with its value (a value of \<open>0\<close> included);
  \<^const>\<open>get_feature_contributions\<close> returns the same entries, none dropped, in
  descending order of absolute contribution.
\<close>

theorem raw_attribution_entries:
  assumes "distinct names" and "length names = length row"
  shows "shap_contribution names (Array2 (row # rows)) = Inr (zip names row)
       \<and> map fst (zip names row) = names
       \<and> map snd (zip names row) = row
       \<and> (shap_values ex (reshape_row X) = Inr (Array2 (row # rows)) \<longrightarrow>
            get_feature_contributions \<lparr>self_explainer = ex, self_feature_names = names\<rparr> X
              = Inr (by_magnitude (zip names row))
            \<and> mset (by_magnitude (zip names row)) = mset (zip names row))"
  using assms
  by (simp add: dict_of_zip_distinct get_feature_contributions_rank2 mset_by_magnitude)

theorem raw_attribution_entries_witness:
  "distinct [''ApplicantIncome'', ''LoanAmount'', ''Credit_History'']
   \<and> length [''ApplicantIncome'', ''LoanAmount'', ''Credit_History'']
       = length [1 / 4, - 1 / 2, 0 :: real]
   \<and> shap_contribution [''ApplicantIncome'', ''LoanAmount'', ''Credit_History'']
        (Array2 [[1 / 4, - 1 / 2, 0]])
       = Inr [(''ApplicantIncome'', 1 / 4), (''LoanAmount'', - 1 / 2), (''Credit_History'', 0)]
   \<and> shap_values example_explainer (reshape_row (Vector [5000, 100, 1]))
       = Inr (Array2 [[1 / 4, - 1 / 2, 0]])
   \<and> get_feature_contributions
        \<lparr>self_explainer = example_explainer,
         self_feature_names = [''ApplicantIncome'', ''LoanAmount'', ''Credit_History'']\<rparr>
        (Vector [5000, 100, 1])
       = Inr [(''LoanAmount'', - 1 / 2), (''ApplicantIncome'', 1 / 4), (''Credit_History'', 0)]"
proof -
  have sv: "shap_values example_explainer (reshape_row (Vector [5000, 100, 1]))
       = Inr (Array2 [[1 / 4, - 1 / 2, 0]])"
    by (simp add: example_explainer_def)
  have order: "by_magnitude [(''ApplicantIncome'', 1 / 4), (''LoanAmount'', - 1 / 2), (''Credit_History'', 0)]
      = [(''LoanAmount'', - 1 / 2), (''ApplicantIncome'', 1 / 4), (''Credit_History'', 0)]"
    by (simp add: by_magnitude_def sorted_reverse_def)
  from raw_attribution_entries
    [of "[''ApplicantIncome'', ''LoanAmount'', ''Credit_History'']" "[1 / 4, - 1 / 2, 0]"
        "[]" example_explainer "Vector [5000, 100, 1]"] sv order
  show ?thesis by simp
qed

section \<open>Batches\<close>

lemma batch_row_predict_try:
  "batch_row g m pp idx a =
     (case predict_try g m pp a of
        Inl e \<Rightarrow> Inl e
      | Inr r \<Rightarrow> Inr \<lparr>prediction = prediction r, probability = probability r,
                      top_factors = top_factors r, application_id = idx + 1\<rparr>)"
  by (simp add: batch_row_def predict_try_def and_then_def split: sum.splits)

lemma batch_loop_Inr:
  "batch_loop g m pp idx apps results = Inr rs \<Longrightarrow>
     \<exists>rows. rs = results @ rows \<and> length rows = length apps
        \<and> (\<forall>i<length apps. batch_row g m pp (idx + i) (apps ! i) = Inr (rows ! i))"
proof (induction apps arbitrary: idx results)
  case Nil
  then show ?case by simp
next
  case (Cons app apps)
  from Cons.prems obtain r where r: "batch_row g m pp idx app = Inr r"
    and loop: "batch_loop g m pp (idx + 1) apps (results @ [r]) = Inr rs"
    by (auto split: sum.splits)
  from Cons.IH [OF loop] obtain rows where rows: "rs = (results @ [r]) @ rows"
    "length rows = length apps"
    "\<forall>i<length apps. batch_row g m pp (idx + 1 + i) (apps ! i) = Inr (rows ! i)"
    by blast
  have "\<forall>i<length (app # apps).
          batch_row g m pp (idx + i) ((app # apps) ! i) = Inr ((r # rows) ! i)"
  proof (intro allI impI)
    fix i assume "i < length (app # apps)"
    then show "batch_row g m pp (idx + i) ((app # apps) ! i) = Inr ((r # rows) ! i)"
      using r rows(3) by (cases i) simp_all
  qed
  with rows(1,2) show ?case
    by (intro exI [of _ "r # rows"]) simp
qed

lemma batch_predict_loaded:
  "model g = Some m \<Longrightarrow> preprocessor g = Some pp \<Longrightarrow>
     batch_predict g apps =
       (case and_then (batch_loop g m pp 0 apps []) batch_summary of
          Inl e \<Rightarrow> Inl (HTTPException 500 (Str e))
        | Inr response \<Rightarrow> Inr response)"
  by (simp add: batch_predict_def)

lemma predict_loaded:
  "model g = Some m \<Longrightarrow> preprocessor g = Some pp \<Longrightarrow>
     predict g a =
       (case predict_try g m pp a of
          Inl e \<Rightarrow> Inl (HTTPException 500 (Str e))
        | Inr response \<Rightarrow> Inr response)"
  by (simp add: predict_def)

lemma batch_predict_Inr_loaded:
  "batch_predict g apps = Inr b \<Longrightarrow> \<exists>m pp. model g = Some m \<and> preprocessor g = Some pp"
  by (auto simp: batch_predict_def split: option.splits)

lemma predict_Inr_loaded:
  "predict g a = Inr r \<Longrightarrow> \<exists>m pp. model g = Some m \<and> preprocessor g = Some pp"
  by (auto simp: predict_def split: option.splits)

lemma batch_summary_nonempty:
  "results \<noteq> [] \<Longrightarrow>
     batch_summary results =
       Inr \<lparr>predictions = results, total_processed = length results,
            approved = length (filter (\<lambda>r. prediction r = ''Approved'') results),
            rejected = length (filter (\<lambda>r. prediction r = ''Rejected'') results),
            approval_rate_percent =
              py_round (real (length (filter (\<lambda>r. prediction r = ''Approved'') results))
                        / real (length results) * 100) 2\<rparr>"
  by (simp add: batch_summary_def truediv_def Let_def)

lemma batch_summary_Inr:
  "batch_summary results = Inr b \<Longrightarrow> predictions b = results \<and> results \<noteq> []"
  by (auto simp: batch_summary_def truediv_def Let_def split: if_splits)

text \<open>
  A batch that is answered is not empty, and its summary counts the rows labelled
  \<open>Approved\<close> and \<open>Rejected\<close> and rounds the share of approvals, in percent, to two
  decimal places.
\<close>

lemma batch_predict_summary:
  assumes "batch_predict g apps = Inr b"
  shows "apps \<noteq> [] \<and> total_processed b = length apps \<and> length (predictions b) = length apps
       \<and> approved b = length (filter (\<lambda>r. prediction r = ''Approved'') (predictions b))
       \<and> rejected b = length (filter (\<lambda>r. prediction r = ''Rejected'') (predictions b))
       \<and> approval_rate_percent b
           = py_round (real (approved b) / real (total_processed b) * 100) 2"
proof -
  from assms obtain m pp where loaded: "model g = Some m" "preprocessor g = Some pp"
    using batch_predict_Inr_loaded by blast
  with assms have "and_then (batch_loop g m pp 0 apps []) batch_summary = Inr b"
    by (simp add: batch_predict_loaded split: sum.splits)
  then obtain rs where loop: "batch_loop g m pp 0 apps [] = Inr rs"
    and summary: "batch_summary rs = Inr b"
    by (auto simp: and_then_eq_Inr)
  from batch_summary_Inr [OF summary] have rs: "predictions b = rs" "rs \<noteq> []" by simp_all
  from batch_loop_Inr [OF loop] have len: "length rs = length apps" by auto
  from summary rs(2) have "b = \<lparr>predictions = rs, total_processed = length rs,
            approved = length (filter (\<lambda>r. prediction r = ''Approved'') rs),
            rejected = length (filter (\<lambda>r. prediction r = ''Rejected'') rs),
            approval_rate_percent =
              py_round (real (length (filter (\<lambda>r. prediction r = ''Approved'') rs))
                        / real (length rs) * 100) 2\<rparr>"
    by (simp add: batch_summary_nonempty)
  with len rs show ?thesis by auto
qed

text \<open>
  The running counters' approval rate is \<open>0\<close> when nothing has been decided yet: the
  guard that the batch summary lacks.
\<close>

lemma stats_approval_rate_percent_empty: "stats_approval_rate_percent 0 0 = Inr 0"
  by (simp add: stats_approval_rate_percent_def)

text \<open>
  Claim C2, at the empty batch. The claim expects the call to succeed with an approval
  rate of \<open>0\<close>; the summary divides by the number of results without a guard, so with
  the model loaded the empty batch ends in \<^verbatim>\<open>ZeroDivisionError\<close>, reported as a
  server error.
\<close>

theorem batch_predict_empty_divides_by_zero:
  assumes "model g = Some m" and "preprocessor g = Some pp"
  shows "batch_predict g [] = Inl (HTTPException 500 (Str ZeroDivisionError))"
  using assms by (simp add: batch_predict_loaded batch_summary_def truediv_def)

theorem batch_predict_empty_divides_by_zero_witness:
  "model example_globals = Some example_model
   \<and> preprocessor example_globals = Some example_preprocessor
   \<and> batch_predict example_globals [] = Inl (HTTPException 500 (Str ZeroDivisionError))"
proof -
  have m: "model example_globals = Some example_model"
    and pp: "preprocessor example_globals = Some example_preprocessor"
    by (simp_all add: example_globals_def)
  from batch_predict_empty_divides_by_zero [OF m pp] m pp show ?thesis by simp
qed

lemma batch_loop_Inl_first:
  "i < length apps \<Longrightarrow> batch_row g m pp (idx + i) (apps ! i) = Inl e \<Longrightarrow>
     \<exists>j e'. j \<le> i \<and> batch_row g m pp (idx + j) (apps ! j) = Inl e'
        \<and> (\<forall>l<j. \<exists>r. batch_row g m pp (idx + l) (apps ! l) = Inr r)
        \<and> batch_loop g m pp idx apps results = Inl e'"
proof (induction apps arbitrary: idx i results)
  case Nil
  then show ?case by simp
next
  case (Cons app apps)
  show ?case
  proof (cases "batch_row g m pp idx app")
    case (Inl e')
    then show ?thesis
      by (intro exI [of _ 0] exI [of _ e']) simp
  next
    case (Inr r)
    with Cons.prems obtain i' where i': "i = Suc i'"
      by (cases i) simp_all
    with Cons.prems have "i' < length apps" "batch_row g m pp (idx + 1 + i') (apps ! i') = Inl e"
      by simp_all
    from Cons.IH [OF this, of "results @ [r]"] obtain j e'
      where j: "j \<le> i'" "batch_row g m pp (idx + 1 + j) (apps ! j) = Inl e'"
        "\<forall>l<j. \<exists>r. batch_row g m pp (idx + 1 + l) (apps ! l) = Inr r"
        "batch_loop g m pp (idx + 1) apps (results @ [r]) = Inl e'"
      by blast
    have "\<forall>l<Suc j. \<exists>r. batch_row g m pp (idx + l) ((app # apps) ! l) = Inr r"
    proof (intro allI impI)
      fix l assume "l < Suc j"
      then show "\<exists>r. batch_row g m pp (idx + l) ((app # apps) ! l) = Inr r"
        using Inr j(3) by (cases l) simp_all
    qed
    with j(1,2,4) i' Inr show ?thesis
      by (intro exI [of _ "Suc j"] exI [of _ e']) simp
  qed
qed

text \<open>
  Claim C8. When the processing of some row of a batch fails, the whole call fails: the
  loop stops at the first failing row, and the call returns the server error of that
  row's exception instead of a response, so no result sequence, partial or complete, is
  returned.
\<close>

theorem batch_fails_as_a_whole:
  assumes "model g = Some m" and "preprocessor g = Some pp"
    and "i < length apps" and "batch_row g m pp i (apps ! i) = Inl e"
  shows "\<exists>j e'. j \<le> i \<and> batch_row g m pp j (apps ! j) = Inl e'
           \<and> (\<forall>l<j. \<exists>r. batch_row g m pp l (apps ! l) = Inr r)
           \<and> batch_predict g apps = Inl (HTTPException 500 (Str e'))"
proof -
  from assms(3,4) obtain j e' where "j \<le> i" "batch_row g m pp j (apps ! j) = Inl e'"
    "\<forall>l<j. \<exists>r. batch_row g m pp l (apps ! l) = Inr r"
    "batch_loop g m pp 0 apps [] = Inl e'"
    using batch_loop_Inl_first [of i apps g m pp 0 e "[]"] by auto
  with assms(1,2) show ?thesis
    by (auto simp: batch_predict_loaded)
qed

theorem batch_fails_as_a_whole_witness:
  "model example_globals = Some example_model
   \<and> preprocessor example_globals = Some example_preprocessor
   \<and> (1::nat) < length [example_application 100 1, example_application 0 1,
                         example_application 50 0]
   \<and> batch_row example_globals example_model example_preprocessor 1
        ([example_application 100 1, example_application 0 1, example_application 50 0] ! 1)
       = Inl (LibraryError ''bad row'')
   \<and> (\<exists>e'. batch_predict example_globals
              [example_application 100 1, example_application 0 1, example_application 50 0]
            = Inl (HTTPException 500 (Str e')))"
proof -
  have m: "model example_globals = Some example_model"
    and pp: "preprocessor example_globals = Some example_preprocessor"
    by (simp_all add: example_globals_def)
  have i: "(1::nat) < length [example_application 100 1, example_application 0 1,
                         example_application 50 0]"
    by simp
  have row: "batch_row example_globals example_model example_preprocessor 1
        ([example_application 100 1, example_application 0 1, example_application 50 0] ! 1)
       = Inl (LibraryError ''bad row'')"
    by (simp add: batch_row_def example_preprocessor_def example_application_def)
  from batch_fails_as_a_whole [OF m pp i row] m pp i row show ?thesis
    by blast
qed

section \<open>Single row and batch\<close>

text \<open>
  The response of the single endpoint, step by step: its attribution mapping is the one
  built from the explainer's array and the feature names, and its ranked factors are the
  ranking of that mapping with the bound \<^const>\<open>top_k\<close>.
\<close>

lemma predict_Inr_steps:
  assumes "predict g a = Inr r"
  shows "\<exists>m pp ex X sv names.
           model g = Some m \<and> preprocessor g = Some pp \<and> explainer g = Some ex
           \<and> transform pp a = Inr X \<and> shap_values ex X = Inr sv
           \<and> feature_names_of g pp = Inr names
           \<and> shap_contribution names sv = Inr (shap_contributions r)
           \<and> rank top_k (shap_contributions r) = Inr (top_factors r)"
proof -
  from assms obtain m pp where loaded: "model g = Some m" "preprocessor g = Some pp"
    using predict_Inr_loaded by blast
  with assms have body: "predict_try g m pp a = Inr r"
    by (simp add: predict_loaded split: sum.splits)
  then obtain X sv names contribs factors where steps:
    "transform pp a = Inr X"
    "(case explainer g of None \<Rightarrow> Inl AttributeError | Some ex \<Rightarrow> shap_values ex X) = Inr sv"
    "feature_names_of g pp = Inr names"
    "shap_contribution names sv = Inr contribs"
    "rank top_k contribs = Inr factors"
    "shap_contributions r = contribs" "top_factors r = factors"
    unfolding predict_try_def and_then_eq_Inr by auto
  from steps(2) obtain ex where "explainer g = Some ex" "shap_values ex X = Inr sv"
    by (cases "explainer g") simp_all
  with loaded steps show ?thesis by auto
qed

lemma predict_to_batch:
  assumes "predict g a = Inr r"
  shows "\<exists>b row. batch_predict g [a] = Inr b \<and> predictions b = [row]
           \<and> prediction row = prediction r \<and> probability row = probability r
           \<and> top_factors row = top_factors r"
proof -
  from assms obtain m pp where loaded: "model g = Some m" "preprocessor g = Some pp"
    using predict_Inr_loaded by blast
  with assms have body: "predict_try g m pp a = Inr r"
    by (simp add: predict_loaded split: sum.splits)
  define row where "row = \<lparr>prediction = prediction r, probability = probability r,
      top_factors = top_factors r, application_id = 0 + 1\<rparr>"
  from body have "batch_row g m pp 0 a = Inr row"
    by (simp add: batch_row_predict_try row_def)
  then have "batch_loop g m pp 0 [a] [] = Inr [row]"
    by simp
  moreover have "\<exists>b. batch_summary [row] = Inr b \<and> predictions b = [row]"
    using batch_summary_nonempty [of "[row]"] by simp
  then obtain b where "batch_summary [row] = Inr b" "predictions b = [row]"
    by blast
  ultimately have "batch_predict g [a] = Inr b"
    using loaded by (simp add: batch_predict_loaded)
  with \<open>predictions b = [row]\<close> show ?thesis
    by (intro exI [of _ b] exI [of _ row]) (simp add: row_def)
qed

lemma batch_to_predict:
  assumes "batch_predict g apps = Inr b" and "i < length apps"
  shows "\<exists>r. predict g (apps ! i) = Inr r \<and> length (predictions b) = length apps
           \<and> prediction (predictions b ! i) = prediction r
           \<and> probability (predictions b ! i) = probability r
           \<and> top_factors (predictions b ! i) = top_factors r
           \<and> application_id (predictions b ! i) = i + 1"
proof -
  from assms(1) obtain m pp where loaded: "model g = Some m" "preprocessor g = Some pp"
    using batch_predict_Inr_loaded by blast
  with assms(1) have "and_then (batch_loop g m pp 0 apps []) batch_summary = Inr b"
    by (simp add: batch_predict_loaded split: sum.splits)
  then obtain rs where loop: "batch_loop g m pp 0 apps [] = Inr rs"
    and summary: "batch_summary rs = Inr b"
    by (auto simp: and_then_eq_Inr)
  from batch_summary_Inr [OF summary] have b: "predictions b = rs" by simp
  from batch_loop_Inr [OF loop] assms(2) have len: "length rs = length apps"
    and row: "batch_row g m pp i (apps ! i) = Inr (rs ! i)"
    by auto
  from row obtain r where body: "predict_try g m pp (apps ! i) = Inr r"
    and fields: "rs ! i = \<lparr>prediction = prediction r, probability = probability r,
        top_factors = top_factors r, application_id = i + 1\<rparr>"
    by (auto simp: batch_row_predict_try split: sum.splits)
  from body loaded have "predict g (apps ! i) = Inr r"
    by (simp add: predict_loaded)
  with b len fields show ?thesis by simp
qed

text \<open>
  Claim C10. The single-row path and the batch path agree. An application that the
  single endpoint answers is answered, submitted as a batch of one, with the same
  prediction label, the same rounded probability and the same ranked factors; and every
  row of a batch that is answered carries, at its position and with the identifier
  \<open>position + 1\<close>, exactly what the single endpoint answers for that application.
  The collaborators are functions of their input here, as the specification requires of
  them (deterministic, free of side effects).
\<close>

theorem single_and_batch_agree:
  "(predict g a = Inr r \<longrightarrow>
      (\<exists>b row. batch_predict g [a] = Inr b \<and> predictions b = [row]
         \<and> prediction row = prediction r \<and> probability row = probability r
         \<and> top_factors row = top_factors r))
   \<and> (batch_predict g apps = Inr b \<and> i < length apps \<longrightarrow>
      (\<exists>r. predict g (apps ! i) = Inr r \<and> length (predictions b) = length apps
         \<and> prediction (predictions b ! i) = prediction r
         \<and> probability (predictions b ! i) = probability r
         \<and> top_factors (predictions b ! i) = top_factors r
         \<and> application_id (predictions b ! i) = i + 1))"
  using predict_to_batch [of g a r] batch_to_predict [of g apps b i] by blast

theorem single_and_batch_agree_witness:
  "(\<exists>r. predict example_globals (example_application 100 1) = Inr r
       \<and> (\<exists>b row. batch_predict example_globals [example_application 100 1] = Inr b
              \<and> predictions b = [row]
              \<and> prediction row = prediction r \<and> probability row = probability r
              \<and> top_factors row = top_factors r))
   \<and> (\<exists>b. batch_predict example_globals [example_application 100 1, example_application 50 0]
             = Inr b
       \<and> (1::nat) < length [example_application 100 1, example_application 50 0]
       \<and> (\<exists>r. predict example_globals
                  ([example_application 100 1, example_application 50 0] ! 1) = Inr r
              \<and> prediction (predictions b ! 1) = prediction r
              \<and> probability (predictions b ! 1) = probability r
              \<and> top_factors (predictions b ! 1) = top_factors r
              \<and> application_id (predictions b ! 1) = 2))"
proof -
  have "\<exists>r. predict example_globals (example_application 100 1) = Inr r"
    by (simp add: predict_def predict_try_def example_globals_def example_model_def
        example_preprocessor_def example_explainer_def example_application_def getitem_def
        feature_names_of_def rank_def)
  then obtain r where single: "predict example_globals (example_application 100 1) = Inr r"
    by blast
  have "\<exists>b. batch_predict example_globals [example_application 100 1, example_application 50 0]
      = Inr b"
    by (simp add: batch_predict_def batch_row_def batch_summary_def truediv_def
        example_globals_def example_model_def example_preprocessor_def example_explainer_def
        example_application_def getitem_def feature_names_of_def rank_def Let_def)
  then obtain b where batch:
    "batch_predict example_globals [example_application 100 1, example_application 50 0] = Inr b"
    by blast
  have i: "(1::nat) < length [example_application 100 1, example_application 50 0]"
    by simp
  from single_and_batch_agree
    [of example_globals "example_application 100 1" r
        "[example_application 100 1, example_application 50 0]" b 1]
    single batch i
  show ?thesis by auto
qed

section \<open>Failures\<close>

text \<open>
  With the model or the preprocessor missing, both endpoints answer 503 before anything
  is computed.
\<close>

lemma endpoints_unloaded:
  assumes "model g = None \<or> preprocessor g = None"
  shows "predict g a = Inl (HTTPException 503 (Text ''Model not loaded''))"
    and "batch_predict g apps = Inl (HTTPException 503 (Text ''Model not loaded''))"
  using assms by (auto simp: predict_def batch_predict_def split: option.splits)

text \<open>
  The repository has no check of the vector's dimensionality: a vector that the model or
  the explainer rejects fails the call with their exception, as a server error.
\<close>

lemma predict_model_failure:
  assumes "model g = Some m" and "preprocessor g = Some pp"
    and "transform pp a = Inr X" and "model_predict m X = Inl e"
  shows "predict g a = Inl (HTTPException 500 (Str e))"
  using assms by (simp add: predict_loaded predict_try_def)

lemma predict_explainer_failure:
  assumes "model g = Some m" and "preprocessor g = Some pp" and "explainer g = Some ex"
    and "transform pp a = Inr X"
    and "model_predict m X = Inr (y # ys)"
    and "model_predict_proba m X = Inr ((p0 # p1 # ps) # pss)"
    and "shap_values ex X = Inl e"
  shows "predict g a = Inl (HTTPException 500 (Str e))"
  using assms by (simp add: predict_loaded predict_try_def getitem_def)

text \<open>
  Where the row returned by the explainer and the list of feature names differ in
  length, the mapping of the serving path is cut to the shorter of the two, without an
  error.
\<close>

lemma shap_contribution_cut_to_shorter:
  assumes "distinct names"
  shows "shap_contribution names (Array2 (row # rows)) = Inr (zip names row)"
    and "length (zip names row) = min (length names) (length row)"
  using assms by (simp_all add: dict_of_zip_distinct)

end
